theory Spec2Isabelle
  imports Main
begin

section \<open>Python strings and the Unicode data the parser consults\<close>

text \<open>
  A Python \<^verbatim>\<open>str\<close> is a sequence of Unicode code points, so a string is a list of
  natural numbers here; \<open>lit\<close> turns an ASCII literal of the source into that form.
  Cyrillic literals are written as code point lists.
\<close>

type_synonym pystr = "nat list"

definition lit :: "string \<Rightarrow> pystr" where
  "lit s = map of_char s"

text \<open>
  The parser calls \<^verbatim>\<open>str.isalpha\<close>, \<^verbatim>\<open>str.lower\<close>, \<^verbatim>\<open>str.strip\<close>/\<^verbatim>\<open>str.split\<close>,
  \<^verbatim>\<open>MorphAnalyzer.parse\<close> (pymorphy2) and \<^verbatim>\<open>list(set(...))\<close>. What these compute is
  decided by the interpreter's Unicode tables, by the analyzer's dictionaries and by the
  hash order of a set, none of which is code of the repository: they are the fields of
  an environment every parser function takes.
  \<^item> \<open>alpha c\<close>: code point \<open>c\<close> is alphabetic (what \<^verbatim>\<open>str.isalpha\<close> tests per character);
  \<^item> \<open>space c\<close>: code point \<open>c\<close> is whitespace (what \<^verbatim>\<open>strip()\<close> and \<^verbatim>\<open>split()\<close> test);
  \<^item> \<open>lower s\<close>: \<^verbatim>\<open>s.lower()\<close>;
  \<^item> \<open>morph w\<close>: the \<^verbatim>\<open>normal_form\<close> of each parse in \<^verbatim>\<open>morph.parse(w)\<close>, in order;
  \<^item> \<open>rank xs x\<close>: the place of \<open>x\<close> in the iteration order of \<^verbatim>\<open>set(xs)\<close>, which the
    hashes of the elements and the size of the table decide.
\<close>

record env =
  alpha :: "nat \<Rightarrow> bool"
  space :: "nat \<Rightarrow> bool"
  lower :: "pystr \<Rightarrow> pystr"
  morph :: "pystr \<Rightarrow> pystr list"
  rank :: "pystr list \<Rightarrow> pystr \<Rightarrow> nat"

text \<open>\<^verbatim>\<open>s.isalpha()\<close>: at least one character, and all of them alphabetic.\<close>

definition py_isalpha :: "env \<Rightarrow> pystr \<Rightarrow> bool" where
  "py_isalpha e s = (s \<noteq> [] \<and> list_all (alpha e) s)"

section \<open>Regular expressions: \<^verbatim>\<open>bool(re.match(pattern, s))\<close>\<close>

text \<open>
  The patterns of the source use character sets, \<^verbatim>\<open>.\<close>, concatenation, \<^verbatim>\<open>|\<close>, \<^verbatim>\<open>*\<close>,
  \<^verbatim>\<open>+\<close> and \<^verbatim>\<open>?\<close>. An atom is a predicate on one code point. \<^verbatim>\<open>re.match\<close> succeeds
  when some prefix of the string matches the pattern; the source only looks at whether
  it succeeds, which \<open>re_match\<close> computes with derivatives.
\<close>

datatype rexp =
  Zero
  | One
  | Atom "nat \<Rightarrow> bool"
  | Alt rexp rexp
  | Seq rexp rexp
  | Star rexp

definition Plus :: "rexp \<Rightarrow> rexp" where
  "Plus r = Seq r (Star r)"

definition Opt :: "rexp \<Rightarrow> rexp" where
  "Opt r = Alt r One"

definition Chr :: "nat \<Rightarrow> rexp" where
  "Chr c = Atom (\<lambda>x. x = c)"

text \<open>\<^verbatim>\<open>.\<close> without \<^verbatim>\<open>re.DOTALL\<close>: any character but the newline U+000A.\<close>

definition Dot :: rexp where
  "Dot = Atom (\<lambda>x. x \<noteq> 10)"

fun nullable :: "rexp \<Rightarrow> bool" where
  "nullable Zero = False"
| "nullable One = True"
| "nullable (Atom p) = False"
| "nullable (Alt r s) = (nullable r \<or> nullable s)"
| "nullable (Seq r s) = (nullable r \<and> nullable s)"
| "nullable (Star r) = True"

fun deriv :: "nat \<Rightarrow> rexp \<Rightarrow> rexp" where
  "deriv c Zero = Zero"
| "deriv c One = Zero"
| "deriv c (Atom p) = (if p c then One else Zero)"
| "deriv c (Alt r s) = Alt (deriv c r) (deriv c s)"
| "deriv c (Seq r s) =
     (if nullable r then Alt (Seq (deriv c r) s) (deriv c s) else Seq (deriv c r) s)"
| "deriv c (Star r) = Seq (deriv c r) (Star r)"

fun re_match :: "rexp \<Rightarrow> pystr \<Rightarrow> bool" where
  "re_match r [] = nullable r"
| "re_match r (c # cs) = (nullable r \<or> re_match (deriv c r) cs)"

text \<open>
  The language of a pattern, the reference the matcher is proved against below. It is
  used in proofs only.
\<close>

definition conc :: "pystr set \<Rightarrow> pystr set \<Rightarrow> pystr set" where
  "conc A B = {u @ v | u v. u \<in> A \<and> v \<in> B}"

inductive_set star :: "pystr set \<Rightarrow> pystr set" for A :: "pystr set" where
  star_nil: "[] \<in> star A"
| star_app: "u \<in> A \<Longrightarrow> v \<in> star A \<Longrightarrow> u @ v \<in> star A"

fun lang :: "rexp \<Rightarrow> pystr set" where
  "lang Zero = {}"
| "lang One = {[]}"
| "lang (Atom p) = {[c] | c. p c}"
| "lang (Alt r s) = lang r \<union> lang s"
| "lang (Seq r s) = conc (lang r) (lang s)"
| "lang (Star r) = star (lang r)"

section \<open>The token classifier (\<^verbatim>\<open>_parser.py\<close>)\<close>

definition possible_pos_tags :: "pystr list" where
  "possible_pos_tags = map lit
     [''ADJ'', ''ADP'', ''ADV'', ''AUX'', ''INTJ'', ''CCONJ'', ''NOUN'', ''DET'',
      ''PROPN'', ''NUM'', ''VERB'', ''PART'', ''PRON'', ''SCONJ'', ''SYM'', ''X'']"

text \<open>
  The character set \<^verbatim>\<open>[a-zA-Z\<close>U+0430\<^verbatim>\<open>-\<close>U+044F U+0410\<^verbatim>\<open>-\<close>U+042F\<^verbatim>\<open>]\<close> of the word pattern:
  the ranges a-z, A-Z, Cyrillic small a to ya and Cyrillic capital A to YA.
\<close>

definition word_class :: "nat \<Rightarrow> bool" where
  "word_class c =
     ((97 \<le> c \<and> c \<le> 122) \<or> (65 \<le> c \<and> c \<le> 90) \<or>
      (1072 \<le> c \<and> c \<le> 1103) \<or> (1040 \<le> c \<and> c \<le> 1071))"

text \<open>The pattern \<^verbatim>\<open>[...]+-?[...]+\<close>; 45 is the hyphen.\<close>

definition word_re :: rexp where
  "word_re = Seq (Plus (Atom word_class)) (Seq (Opt (Chr 45)) (Plus (Atom word_class)))"

text \<open>The pattern \<^verbatim>\<open>\".*\"|\'.*\'\<close>; 34 is the double quote, 39 the single quote.\<close>

definition exact_re :: rexp where
  "exact_re = Alt (Seq (Chr 34) (Seq (Star Dot) (Chr 34)))
                  (Seq (Chr 39) (Seq (Star Dot) (Chr 39)))"

definition is_a_word :: "env \<Rightarrow> pystr \<Rightarrow> bool" where
  "is_a_word e word = (py_isalpha e word \<or> re_match word_re word)"

definition is_exact_form :: "pystr \<Rightarrow> bool" where
  "is_exact_form word = re_match exact_re word"

definition is_pos_tag :: "pystr \<Rightarrow> bool" where
  "is_pos_tag word = (word \<in> set possible_pos_tags)"

section \<open>Dictionaries, results and errors\<close>

text \<open>
  A Python \<^verbatim>\<open>dict\<close> keeps its keys in insertion order: it is an association list with
  distinct keys. \<open>dict_set d k v\<close> is \<^verbatim>\<open>d[k] = v\<close> (an existing key keeps its place and
  gets the new value, a new key goes last); \<open>dict_update d d'\<close> is \<^verbatim>\<open>d.update(d')\<close>.
\<close>

type_synonym ('k, 'v) dict = "('k \<times> 'v) list"

fun dict_set :: "('k, 'v) dict \<Rightarrow> 'k \<Rightarrow> 'v \<Rightarrow> ('k, 'v) dict" where
  "dict_set [] k v = [(k, v)]"
| "dict_set ((k', v') # d) k v =
     (if k' = k then (k', v) # d else (k', v') # dict_set d k v)"

fun dict_update :: "('k, 'v) dict \<Rightarrow> ('k, 'v) dict \<Rightarrow> ('k, 'v) dict" where
  "dict_update d [] = d"
| "dict_update d ((k, v) # kvs) = dict_update (dict_set d k v) kvs"

definition dict_keys :: "('k, 'v) dict \<Rightarrow> 'k list" where
  "dict_keys d = map fst d"

text \<open>
  Every \<^verbatim>\<open>raise\<close> of the two modules is one constructor. The four
  \<^verbatim>\<open>HTTPException(400)\<close> of the parser differ in their \<^verbatim>\<open>detail\<close> text and carry the
  names the specification gives them:
  \<^item> \<open>UnrecognizedTokenError w\<close>: \<^verbatim>\<open>parse_word\<close>, the token \<open>w\<close> is neither a lemma, a
    POS tag nor an exact form;
  \<^item> \<open>TooManyOperatorsError\<close>: \<^verbatim>\<open>parse_single_part\<close>, more than one plus;
  \<^item> \<open>InvalidCombinationError\<close>: \<^verbatim>\<open>parse_single_part\<close>, the parts around the plus;
  \<^item> \<open>InvalidLengthError\<close>: \<^verbatim>\<open>request_to_trigram\<close>, not 1 to 3 segments;
  \<^item> \<open>InvalidTrigramError\<close>: \<^verbatim>\<open>ValueError("Trigram cannot contain all None")\<close>;
  \<^item> \<open>TypeMismatchError\<close>: \<^verbatim>\<open>TypeError("Compared value must be the same type.")\<close>;
  \<^item> \<open>IndexError\<close>, \<open>AttributeError\<close>: what Python raises by itself on an index out of
    range and on an attribute of \<^verbatim>\<open>None\<close>.
\<close>

datatype error =
  UnrecognizedTokenError pystr
  | TooManyOperatorsError
  | InvalidCombinationError
  | InvalidLengthError
  | InvalidTrigramError
  | TypeMismatchError
  | IndexError
  | AttributeError

text \<open>A value of a requirement object: a string, or the list of lemma candidates.\<close>

datatype val = Str pystr | StrList "pystr list"

type_synonym requirement = "(string, val) dict"

section \<open>The query parser (\<^verbatim>\<open>_parser.py\<close>)\<close>

text \<open>The pattern \<^verbatim>\<open>\'|\"\<close> of \<^verbatim>\<open>re.sub\<close> in \<^verbatim>\<open>parse_word\<close>.\<close>

definition quote_re :: rexp where
  "quote_re = Alt (Chr 39) (Chr 34)"

text \<open>
  \<^verbatim>\<open>re.sub(pattern, '', s)\<close> for a pattern whose matches are single characters, as
  \<open>quote_re\<close> is: every character the pattern matches is removed.
\<close>

definition re_sub_chars :: "rexp \<Rightarrow> pystr \<Rightarrow> pystr" where
  "re_sub_chars r s = filter (\<lambda>c. \<not> re_match r [c]) s"

text \<open>
  \<^verbatim>\<open>list(set(xs))\<close>: the elements of \<open>xs\<close>, each once, in the iteration order of the set.
\<close>

definition py_list_set :: "env \<Rightarrow> pystr list \<Rightarrow> pystr list" where
  "py_list_set e xs = sort_key (rank e xs) (remdups xs)"

definition parse_word :: "env \<Rightarrow> pystr \<Rightarrow> error + requirement" where
  "parse_word e word =
     (if is_pos_tag word then Inr [(''pos'', Str word)]
      else if is_exact_form word then
        Inr [(''word_form'', Str (re_sub_chars quote_re (lower e word)))]
      else if is_a_word e word then
        (let parsed = morph e word;
             normal_forms = py_list_set e (map (lower e) parsed)
         in Inr [(''lemma'', StrList normal_forms)])
      else Inl (UnrecognizedTokenError word))"

text \<open>
  \<^verbatim>\<open>s.split(sep)\<close> for a one-character separator: \<open>cur\<close> is the piece being read, in
  reverse. The result is never empty.
\<close>

fun split_on :: "nat \<Rightarrow> pystr \<Rightarrow> pystr \<Rightarrow> pystr list" where
  "split_on sep cur [] = [rev cur]"
| "split_on sep cur (c # cs) =
     (if c = sep then rev cur # split_on sep [] cs else split_on sep (c # cur) cs)"

definition py_split_sep :: "nat \<Rightarrow> pystr \<Rightarrow> pystr list" where
  "py_split_sep sep s = split_on sep [] s"

text \<open>
  43 is the plus sign. \<^verbatim>\<open>subparts[0]\<close> and \<^verbatim>\<open>subparts[1]\<close> raise IndexError on a
  list shorter than two, which the last case keeps.
\<close>

definition parse_single_part :: "env \<Rightarrow> pystr \<Rightarrow> error + requirement" where
  "parse_single_part e part =
     (let result = [] in
      if 43 \<in> set part then
        (let subparts = py_split_sep 43 part in
         if length subparts > 2 then Inl TooManyOperatorsError
         else
           (case subparts of
              a # b # _ \<Rightarrow>
                if \<not> ((is_a_word e a \<or> is_exact_form a) \<and> is_pos_tag b)
                then Inl InvalidCombinationError
                else
                  (let result = dict_set result ''pos'' (Str b) in
                   case parse_word e a of
                     Inl err \<Rightarrow> Inl err
                   | Inr d \<Rightarrow> Inr (dict_update result d))
            | _ \<Rightarrow> Inl IndexError))
      else
        (case parse_word e part of
           Inl err \<Rightarrow> Inl err
         | Inr d \<Rightarrow> Inr (dict_update result d)))"

text \<open>\<^verbatim>\<open>s.strip()\<close> and \<^verbatim>\<open>s.split()\<close>, on the whitespace of the environment.\<close>

definition py_strip :: "env \<Rightarrow> pystr \<Rightarrow> pystr" where
  "py_strip e s = rev (dropWhile (space e) (rev (dropWhile (space e) s)))"

fun split_ws :: "env \<Rightarrow> pystr \<Rightarrow> pystr \<Rightarrow> pystr list" where
  "split_ws e cur [] = (if cur = [] then [] else [rev cur])"
| "split_ws e cur (c # cs) =
     (if space e c then
        (if cur = [] then split_ws e [] cs else rev cur # split_ws e [] cs)
      else split_ws e (c # cur) cs)"

definition py_split :: "env \<Rightarrow> pystr \<Rightarrow> pystr list" where
  "py_split e s = split_ws e [] s"

text \<open>
  The loop \<^verbatim>\<open>for i, part in enumerate(search_parts)\<close>: \<open>i\<close> is the index of the
  part at the head of the list, the dictionary is the one built so far. The first part
  that fails ends the loop with its error.
\<close>

fun parse_parts ::
  "env \<Rightarrow> int \<Rightarrow> pystr list \<Rightarrow> (int, requirement) dict \<Rightarrow> error + (int, requirement) dict"
where
  "parse_parts e i [] reqs = Inr reqs"
| "parse_parts e i (part # parts) reqs =
     (case parse_single_part e part of
        Inl err \<Rightarrow> Inl err
      | Inr r \<Rightarrow> parse_parts e (i + 1) parts (dict_set reqs (i + 1) r))"

definition search_parts :: "env \<Rightarrow> pystr \<Rightarrow> pystr list" where
  "search_parts e request = py_split e (py_strip e request)"

definition request_to_trigram :: "env \<Rightarrow> pystr \<Rightarrow> error + (int, requirement) dict" where
  "request_to_trigram e request =
     (let requirements_for_tokens = [];
          parts = search_parts e request
      in if length parts > 3 \<or> length parts < 1 then Inl InvalidLengthError
         else parse_parts e 0 parts requirements_for_tokens)"

section \<open>Tokens and trigrams (\<^verbatim>\<open>_data_structures.py\<close>)\<close>

text \<open>
  The field \<^verbatim>\<open>lemma\<close> of the dataclass is \<open>lemma_id\<close> here (the word is a keyword of
  Isabelle), and the attribute \<^verbatim>\<open>text_position\<close> of a Trigram is \<open>span\<close> (a Token
  has a field of that name already).
\<close>

record Token =
  text_position :: "int \<times> int"
  sentence :: int
  wordform :: int
  lemma_id :: int
  pos_tag :: int

type_synonym slots = "Token option \<times> Token option \<times> Token option"

record Trigram =
  trigram :: slots
  span :: "int \<times> int"

text \<open>The values \<^verbatim>\<open>__eq__\<close> can be handed: None, a Token, and other kinds of object.\<close>

datatype pyval = PNone | PToken Token | PTrigram Trigram | PInt int | PStr pystr

text \<open>
  \<^verbatim>\<open>__value == None\<close>: true of None alone. On a Token or Trigram operand the test runs
  that class's \<^verbatim>\<open>__eq__\<close> with None as the argument, which returns False at its first
  line; an int or a str is not equal to None.
\<close>

fun eq_None :: "pyval \<Rightarrow> bool" where
  "eq_None PNone = True"
| "eq_None _ = False"

fun isinstance_Token :: "pyval \<Rightarrow> bool" where
  "isinstance_Token (PToken _) = True"
| "isinstance_Token _ = False"

definition Token_eq :: "Token \<Rightarrow> pyval \<Rightarrow> error + bool" where
  "Token_eq self v =
     (if eq_None v then Inr False
      else if \<not> isinstance_Token v then Inl TypeMismatchError
      else
        (case v of
           PToken other \<Rightarrow>
             Inr (wordform self = wordform other \<and> lemma_id self = lemma_id other \<and>
                  pos_tag self = pos_tag other \<and> text_position self = text_position other)
         | _ \<Rightarrow> Inl TypeMismatchError))"

definition slot_val :: "Token option \<Rightarrow> pyval" where
  "slot_val x = (case x of None \<Rightarrow> PNone | Some t \<Rightarrow> PToken t)"

text \<open>
  The operator \<^verbatim>\<open>==\<close> on two slots. A Token on the left runs its \<^verbatim>\<open>__eq__\<close>; None on
  the left of a Token falls back to the Token's \<^verbatim>\<open>__eq__\<close> with the operands swapped;
  None and None are equal.
\<close>

fun py_eq :: "Token option \<Rightarrow> Token option \<Rightarrow> error + bool" where
  "py_eq (Some t) y = Token_eq t (slot_val y)"
| "py_eq None (Some t) = Token_eq t PNone"
| "py_eq None None = Inr True"

text \<open>Indexing the 3-tuple; Python counts a negative index from the end.\<close>

definition slot_get :: "slots \<Rightarrow> int \<Rightarrow> error + Token option" where
  "slot_get tr i =
     (case tr of (t0, t1, t2) \<Rightarrow>
        if i = 0 \<or> i = - 3 then Inr t0
        else if i = 1 \<or> i = - 2 then Inr t1
        else if i = 2 \<or> i = - 1 then Inr t2
        else Inl IndexError)"

text \<open>
  The chained comparison \<^verbatim>\<open>trigram[0] == trigram[1] == trigram[2] == None\<close>: the three
  comparisons from left to right, stopping at the first that is false.
\<close>

definition all_None :: "slots \<Rightarrow> error + bool" where
  "all_None tr =
     (case tr of (t0, t1, t2) \<Rightarrow>
        (case py_eq t0 t1 of
           Inl err \<Rightarrow> Inl err
         | Inr b01 \<Rightarrow>
             if \<not> b01 then Inr False
             else
               (case py_eq t1 t2 of
                  Inl err \<Rightarrow> Inl err
                | Inr b12 \<Rightarrow> if \<not> b12 then Inr False else py_eq t2 None)))"

text \<open>
  \<^verbatim>\<open>while trigram[first_not_none] == None: first_not_none += 1\<close> and
  \<^verbatim>\<open>while trigram[last_not_none] == None: last_not_none -= 1\<close>.
\<close>

function first_not_none_loop :: "slots \<Rightarrow> int \<Rightarrow> error + int" where
  "first_not_none_loop tr i =
     (case slot_get tr i of
        Inl err \<Rightarrow> Inl err
      | Inr x \<Rightarrow>
          (case py_eq x None of
             Inl err \<Rightarrow> Inl err
           | Inr b \<Rightarrow> if b then first_not_none_loop tr (i + 1) else Inr i))"
  by pat_completeness auto
termination
  by (relation "measure (\<lambda>(tr, i). nat (3 - i))")
     (auto simp: slot_get_def split: prod.splits if_splits)

function last_not_none_loop :: "slots \<Rightarrow> int \<Rightarrow> error + int" where
  "last_not_none_loop tr i =
     (case slot_get tr i of
        Inl err \<Rightarrow> Inl err
      | Inr x \<Rightarrow>
          (case py_eq x None of
             Inl err \<Rightarrow> Inl err
           | Inr b \<Rightarrow> if b then last_not_none_loop tr (i - 1) else Inr i))"
  by pat_completeness auto
termination
  by (relation "measure (\<lambda>(tr, i). nat (i + 4))")
     (auto simp: slot_get_def split: prod.splits if_splits)

text \<open>\<^verbatim>\<open>trigram[i].text_position\<close>: the attribute of None is an AttributeError.\<close>

definition slot_position :: "slots \<Rightarrow> int \<Rightarrow> error + (int \<times> int)" where
  "slot_position tr i =
     (case slot_get tr i of
        Inl err \<Rightarrow> Inl err
      | Inr None \<Rightarrow> Inl AttributeError
      | Inr (Some t) \<Rightarrow> Inr (text_position t))"

definition Trigram_init :: "slots \<Rightarrow> error + Trigram" where
  "Trigram_init tr =
     (case all_None tr of
        Inl err \<Rightarrow> Inl err
      | Inr b \<Rightarrow>
          if b then Inl InvalidTrigramError
          else
            (case first_not_none_loop tr 0 of
               Inl err \<Rightarrow> Inl err
             | Inr first_not_none \<Rightarrow>
                 (case last_not_none_loop tr 2 of
                    Inl err \<Rightarrow> Inl err
                  | Inr last_not_none \<Rightarrow>
                      (case slot_position tr first_not_none of
                         Inl err \<Rightarrow> Inl err
                       | Inr p \<Rightarrow>
                           (case slot_position tr last_not_none of
                              Inl err \<Rightarrow> Inl err
                            | Inr q \<Rightarrow> Inr \<lparr>trigram = tr, span = (fst p, snd q)\<rparr>)))))"

section \<open>What the specification says, in its own words\<close>

text \<open>
  "Fully wrapped in a matching pair of single quotes or a matching pair of double
  quotes, covering the whole string": the first and the last character are the same
  quote character, and they are two characters.
\<close>

definition spec_fully_quoted :: "pystr \<Rightarrow> bool" where
  "spec_fully_quoted s =
     (2 \<le> length s \<and> (hd s = 34 \<and> last s = 34 \<or> hd s = 39 \<and> last s = 39))"

text \<open>
  "Composed entirely of alphabetic characters (Latin or Cyrillic), or an alphabetic run,
  a single hyphen, and another alphabetic run". The Latin and Cyrillic letters are taken
  as the basic Latin letters and the Cyrillic block U+0400 to U+04FF.
\<close>

definition spec_letter :: "nat \<Rightarrow> bool" where
  "spec_letter c =
     ((97 \<le> c \<and> c \<le> 122) \<or> (65 \<le> c \<and> c \<le> 90) \<or> (1024 \<le> c \<and> c \<le> 1279))"

definition spec_is_word :: "pystr \<Rightarrow> bool" where
  "spec_is_word s =
     (let u = takeWhile spec_letter s; r = dropWhile spec_letter s
      in u \<noteq> [] \<and>
         (r = [] \<or> (hd r = 45 \<and> tl r \<noteq> [] \<and> list_all spec_letter (tl r))))"

text \<open>"The lowercased input with only the enclosing pair of quotes stripped".\<close>

definition spec_word_form :: "env \<Rightarrow> pystr \<Rightarrow> pystr" where
  "spec_word_form e word = butlast (tl (lower e word))"


text \<open>
  "The first present slot scanning slot 0 to slot 2" and "the last present slot scanning
  slot 2 to slot 0".
\<close>

fun first_present :: "slots \<Rightarrow> Token option" where
  "first_present (Some t, _, _) = Some t"
| "first_present (None, Some t, _) = Some t"
| "first_present (None, None, t2) = t2"

fun last_present :: "slots \<Rightarrow> Token option" where
  "last_present (_, _, Some t) = Some t"
| "last_present (_, Some t, None) = Some t"
| "last_present (t0, None, None) = t0"

text \<open>
  "Keys drawn only from pos, lemma and word_form, and never both lemma and word_form".
\<close>

definition valid_requirement :: "requirement \<Rightarrow> bool" where
  "valid_requirement d =
     (set (dict_keys d) \<subseteq> {''pos'', ''lemma'', ''word_form''} \<and>
      \<not> (''lemma'' \<in> set (dict_keys d) \<and> ''word_form'' \<in> set (dict_keys d)))"

section \<open>An environment to run the parser in\<close>

text \<open>
  A test double for the environment. Its \<open>alpha\<close>, \<open>space\<close> and \<open>lower\<close> are those of
  CPython on the strings used below, which are made of basic Latin characters, of the
  Cyrillic letters U+0410 to U+044F, and (for \<open>alpha\<close>) of the Greek small letters
  U+03B1 to U+03C9. Its analyzer lowercases the word it is given, as the \<^verbatim>\<open>parse\<close> of
  pymorphy2 does; it knows one ambiguous word, "left", and returns every other word,
  lowercased, as its own normal form. Its sets give every element the same rank, so that
  they enumerate in the order \<open>remdups\<close> leaves.
\<close>

definition sample_alpha :: "nat \<Rightarrow> bool" where
  "sample_alpha c =
     ((97 \<le> c \<and> c \<le> 122) \<or> (65 \<le> c \<and> c \<le> 90) \<or>
      (945 \<le> c \<and> c \<le> 969) \<or> (1040 \<le> c \<and> c \<le> 1103))"

definition sample_space :: "nat \<Rightarrow> bool" where
  "sample_space c = ((9 \<le> c \<and> c \<le> 13) \<or> (28 \<le> c \<and> c \<le> 32))"

definition sample_lower :: "pystr \<Rightarrow> pystr" where
  "sample_lower s =
     map (\<lambda>c. if (65 \<le> c \<and> c \<le> 90) \<or> (1040 \<le> c \<and> c \<le> 1071) then c + 32 else c) s"

definition sample_morph :: "pystr \<Rightarrow> pystr list" where
  "sample_morph w =
     (if sample_lower w = lit ''left'' then [lit ''leave'', lit ''left'']
      else [sample_lower w])"

definition sample_env :: env where
  "sample_env =
     \<lparr>alpha = sample_alpha, space = sample_space, lower = sample_lower,
      morph = sample_morph, rank = (\<lambda>xs x. 0)\<rparr>"

text \<open>Two tokens of one sentence, as the tagging pipeline would produce them.\<close>

definition tokA :: Token where
  "tokA = \<lparr>text_position = (0, 5), sentence = 0, wordform = 11, lemma_id = 21, pos_tag = 7\<rparr>"

definition tokB :: Token where
  "tokB = \<lparr>text_position = (6, 9), sentence = 0, wordform = 12, lemma_id = 22, pos_tag = 1\<rparr>"

section \<open>The matcher against the language of a pattern\<close>

lemma nullable_iff: "nullable r \<longleftrightarrow> [] \<in> lang r"
  by (induction r) (auto simp: conc_def intro: star.intros)

lemma star_cons_iff:
  "c # w \<in> star A \<longleftrightarrow> (\<exists>u v. w = u @ v \<and> c # u \<in> A \<and> v \<in> star A)"
proof
  assume "c # w \<in> star A"
  then show "\<exists>u v. w = u @ v \<and> c # u \<in> A \<and> v \<in> star A"
  proof (induction "c # w" rule: star.induct)
    case (star_app u v)
    show ?case
    proof (cases u)
      case Nil
      with star_app show ?thesis by simp
    next
      case (Cons a u')
      with star_app show ?thesis by auto
    qed
  qed
next
  assume "\<exists>u v. w = u @ v \<and> c # u \<in> A \<and> v \<in> star A"
  then obtain u v where "w = u @ v" "c # u \<in> A" "v \<in> star A" by blast
  then have "(c # u) @ v \<in> star A" by (intro star.star_app)
  then show "c # w \<in> star A" using \<open>w = u @ v\<close> by simp
qed

lemma conc_cons_iff:
  "c # w \<in> conc A B \<longleftrightarrow>
     (\<exists>u v. w = u @ v \<and> c # u \<in> A \<and> v \<in> B) \<or> ([] \<in> A \<and> c # w \<in> B)"
  by (auto simp: conc_def Cons_eq_append_conv) 

lemma lang_deriv: "w \<in> lang (deriv c r) \<longleftrightarrow> c # w \<in> lang r"
proof (induction r arbitrary: w)
  case (Seq r s)
  then show ?case
    by (auto simp: conc_cons_iff nullable_iff) (auto simp: conc_def)
next
  case (Star r)
  then show ?case
    by (auto simp: star_cons_iff conc_def)
qed auto

lemma re_match_iff: "re_match r s \<longleftrightarrow> (\<exists>u v. s = u @ v \<and> u \<in> lang r)"
proof (induction s arbitrary: r)
  case Nil
  then show ?case by (simp add: nullable_iff)
next
  case (Cons c cs)
  note IH = Cons.IH
  show ?case
  proof
    assume "re_match r (c # cs)"
    then consider "nullable r" | "re_match (deriv c r) cs" by auto
    then show "\<exists>u v. c # cs = u @ v \<and> u \<in> lang r"
    proof cases
      case 1
      then have "c # cs = [] @ (c # cs) \<and> [] \<in> lang r" by (simp add: nullable_iff)
      then show ?thesis by blast
    next
      case 2
      then obtain u v where "cs = u @ v" "u \<in> lang (deriv c r)" using IH by blast
      then have "c # cs = (c # u) @ v \<and> c # u \<in> lang r" by (simp add: lang_deriv)
      then show ?thesis by blast
    qed
  next
    assume "\<exists>u v. c # cs = u @ v \<and> u \<in> lang r"
    then obtain u v where uv: "c # cs = u @ v" "u \<in> lang r" by blast
    show "re_match r (c # cs)"
    proof (cases u)
      case Nil
      with uv have "nullable r" by (simp add: nullable_iff)
      then show ?thesis by simp
    next
      case (Cons a u')
      with uv have "cs = u' @ v" "u' \<in> lang (deriv c r)" by (auto simp: lang_deriv)
      then have "re_match (deriv c r) cs" using IH by blast
      then show ?thesis by simp
    qed
  qed
qed

lemma star_atoms: "star {[c] | c. p c} = {w. list_all p w}"
proof (rule set_eqI, rule iffI)
  fix w assume "w \<in> star {[c] | c. p c}"
  then show "w \<in> {w. list_all p w}"
    by (induction rule: star.induct) auto
next
  fix w assume "w \<in> {w. list_all p w}"
  then have "list_all p w" by simp
  then show "w \<in> star {[c] | c. p c}"
  proof (induction w)
    case Nil
    show ?case by (rule star.star_nil)
  next
    case (Cons a w)
    then have "[a] \<in> {[c] | c. p c}" "w \<in> star {[c] | c. p c}" by auto
    then have "[a] @ w \<in> star {[c] | c. p c}" by (rule star.star_app)
    then show ?case by simp
  qed
qed

lemma conc_atoms:
  "w \<in> conc {[c] | c. p c} B \<longleftrightarrow> (\<exists>c v. w = c # v \<and> p c \<and> v \<in> B)"
proof
  assume "w \<in> conc {[c] | c. p c} B"
  then show "\<exists>c v. w = c # v \<and> p c \<and> v \<in> B"
    by (auto simp: conc_def)
next
  assume "\<exists>c v. w = c # v \<and> p c \<and> v \<in> B"
  then obtain c v where "w = [c] @ v" "[c] \<in> {[c] | c. p c}" "v \<in> B"
    by auto
  then show "w \<in> conc {[c] | c. p c} B"
    unfolding conc_def by blast
qed

lemma conc_single: "w \<in> conc A {[c]} \<longleftrightarrow> (\<exists>u. w = u @ [c] \<and> u \<in> A)"
  by (auto simp: conc_def)

lemma lang_Plus_Atom: "lang (Plus (Atom p)) = {w. w \<noteq> [] \<and> list_all p w}"
proof (rule set_eqI)
  fix w
  have "w \<in> lang (Plus (Atom p)) \<longleftrightarrow> (\<exists>c v. w = c # v \<and> p c \<and> list_all p v)"
    by (simp add: Plus_def conc_atoms star_atoms)
  also have "\<dots> \<longleftrightarrow> w \<noteq> [] \<and> list_all p w"
    by (cases w) auto
  finally show "w \<in> lang (Plus (Atom p)) \<longleftrightarrow> w \<in> {w. w \<noteq> [] \<and> list_all p w}"
    by simp
qed

lemma lang_Star_Dot: "lang (Star Dot) = {w. 10 \<notin> set w}"
  unfolding Dot_def by (auto simp: star_atoms list_all_iff)

lemma lang_quoted:
  "w \<in> lang (Seq (Chr q) (Seq (Star Dot) (Chr q))) \<longleftrightarrow>
     (\<exists>body. w = q # body @ [q] \<and> 10 \<notin> set body)"
proof -
  have "w \<in> lang (Seq (Chr q) (Seq (Star Dot) (Chr q))) \<longleftrightarrow>
      w \<in> conc {[c] | c. c = q} (conc {w. 10 \<notin> set w} {[q]})"
    unfolding lang.simps(5) lang_Star_Dot by (simp add: Chr_def)
  also have "\<dots> \<longleftrightarrow> (\<exists>v. w = q # v \<and> v \<in> conc {w. 10 \<notin> set w} {[q]})"
    unfolding conc_atoms by simp
  also have "\<dots> \<longleftrightarrow> (\<exists>body. w = q # body @ [q] \<and> 10 \<notin> set body)"
    unfolding conc_single by auto
  finally show ?thesis .
qed

lemma is_exact_form_iff:
  "is_exact_form s \<longleftrightarrow>
     (\<exists>q body rest. (q = 34 \<or> q = 39) \<and> s = q # body @ q # rest \<and> 10 \<notin> set body)"
proof
  assume "is_exact_form s"
  then obtain u v where s: "s = u @ v" and u: "u \<in> lang exact_re"
    by (auto simp: is_exact_form_def re_match_iff)
  from u obtain q where q: "q = 34 \<or> q = 39"
    and "u \<in> lang (Seq (Chr q) (Seq (Star Dot) (Chr q)))"
    unfolding exact_re_def by auto
  then obtain body where "u = q # body @ [q]" "10 \<notin> set body"
    unfolding lang_quoted by blast
  with s q have "(q = 34 \<or> q = 39) \<and> s = q # body @ q # v \<and> 10 \<notin> set body"
    by simp
  then show "\<exists>q body rest. (q = 34 \<or> q = 39) \<and> s = q # body @ q # rest \<and> 10 \<notin> set body"
    by blast
next
  assume "\<exists>q body rest. (q = 34 \<or> q = 39) \<and> s = q # body @ q # rest \<and> 10 \<notin> set body"
  then obtain q body rest where q: "q = 34 \<or> q = 39"
    and s: "s = q # body @ q # rest" and b: "10 \<notin> set body"
    by blast
  from b have "q # body @ [q] \<in> lang (Seq (Chr q) (Seq (Star Dot) (Chr q)))"
    by (subst lang_quoted) blast
  with q have "q # body @ [q] \<in> lang exact_re"
    unfolding exact_re_def by auto
  moreover have "s = (q # body @ [q]) @ rest"
    using s by simp
  ultimately show "is_exact_form s"
    unfolding is_exact_form_def re_match_iff by blast
qed

lemma lang_word_re:
  "w \<in> lang word_re \<longleftrightarrow>
     (\<exists>u h v. w = u @ h @ v \<and> u \<noteq> [] \<and> list_all word_class u \<and> (h = [] \<or> h = [45]) \<and>
        v \<noteq> [] \<and> list_all word_class v)"
proof -
  have "lang (Opt (Chr 45)) = {[], [45]}"
    by (auto simp: Opt_def Chr_def)
  then show ?thesis
    unfolding word_re_def lang.simps(5) lang_Plus_Atom
    by (simp add: conc_def) blast
qed

lemma re_match_word_re_iff:
  "re_match word_re s \<longleftrightarrow>
     (\<exists>c1 c2 rest. s = c1 # c2 # rest \<and> word_class c1 \<and>
        (word_class c2 \<or> (c2 = 45 \<and> (\<exists>c3 rest'. rest = c3 # rest' \<and> word_class c3))))"
proof
  assume "re_match word_re s"
  then obtain u h v t where s: "s = (u @ h @ v) @ t"
    and u: "u \<noteq> []" "list_all word_class u" and h: "h = [] \<or> h = [45]"
    and v: "v \<noteq> []" "list_all word_class v"
    unfolding re_match_iff lang_word_re by blast
  from u obtain a u' where u': "u = a # u'" "word_class a" "list_all word_class u'"
    by (cases u) auto
  from v obtain b v' where v': "v = b # v'" "word_class b"
    by (cases v) auto
  show "\<exists>c1 c2 rest. s = c1 # c2 # rest \<and> word_class c1 \<and>
        (word_class c2 \<or> (c2 = 45 \<and> (\<exists>c3 rest'. rest = c3 # rest' \<and> word_class c3)))"
  proof (cases u')
    case Nil
    with s u' v' h show ?thesis by auto
  next
    case (Cons a' u'')
    with s u' show ?thesis by auto
  qed
next
  assume "\<exists>c1 c2 rest. s = c1 # c2 # rest \<and> word_class c1 \<and>
        (word_class c2 \<or> (c2 = 45 \<and> (\<exists>c3 rest'. rest = c3 # rest' \<and> word_class c3)))"
  then obtain c1 c2 rest where s: "s = c1 # c2 # rest" and c1: "word_class c1"
    and c2: "word_class c2 \<or> (c2 = 45 \<and> (\<exists>c3 rest'. rest = c3 # rest' \<and> word_class c3))"
    by blast
  from c2 show "re_match word_re s"
  proof
    assume "word_class c2"
    with c1 have "[c1] @ [] @ [c2] \<in> lang word_re"
      unfolding lang_word_re
      by (intro exI[of _ "[c1]"] exI[of _ "[]"] exI[of _ "[c2]"]) simp
    moreover have "s = ([c1] @ [] @ [c2]) @ rest" using s by simp
    ultimately show ?thesis unfolding re_match_iff by blast
  next
    assume "c2 = 45 \<and> (\<exists>c3 rest'. rest = c3 # rest' \<and> word_class c3)"
    then obtain c3 rest' where r: "c2 = 45" "rest = c3 # rest'" "word_class c3" by blast
    with c1 have "[c1] @ [45] @ [c3] \<in> lang word_re"
      unfolding lang_word_re
      by (intro exI[of _ "[c1]"] exI[of _ "[45]"] exI[of _ "[c3]"]) simp
    moreover have "s = ([c1] @ [45] @ [c3]) @ rest'" using s r by simp
    ultimately show ?thesis unfolding re_match_iff by blast
  qed
qed

section \<open>The classifier predicates\<close>

lemmas sample_defs = sample_env_def sample_alpha_def sample_space_def sample_lower_def
  sample_morph_def

lemmas re_defs = word_re_def exact_re_def quote_re_def Plus_def Opt_def Chr_def Dot_def
  word_class_def

text \<open>
  C1. \<^verbatim>\<open>is_exact_form(s)\<close> is to be true exactly when \<open>s\<close> is fully wrapped in a matching
  pair of quotes, with nothing after the closing quote. \<^verbatim>\<open>re.match\<close> anchors the pattern
  at the start of the string only: on the five characters \<^verbatim>\<open>"ab"c\<close> the function
  answers true, and the string is not fully wrapped.
\<close>

theorem is_exact_form_trailing_text:
  "is_exact_form [34, 97, 98, 34, 99] \<and> \<not> spec_fully_quoted [34, 97, 98, 34, 99]"
  by (simp add: is_exact_form_def exact_re_def Chr_def Dot_def spec_fully_quoted_def)

text \<open>
  C2. \<^verbatim>\<open>is_a_word(s)\<close> is to be true exactly when \<open>s\<close> is made of Latin or Cyrillic
  letters only, or is a run of letters, one hyphen and another run. What holds of the
  code by design: a string that is not empty and entirely alphabetic is a word, whatever
  the script (\<^verbatim>\<open>str.isalpha\<close>); so is a run of letters of the pattern's ranges, an
  optional single hyphen and another such run; the empty string is not a word, and
  neither is a string whose first character is not a letter.
\<close>

theorem is_a_word_by_design:
  "(py_isalpha e s \<longrightarrow> is_a_word e s) \<and>
   (u \<noteq> [] \<and> list_all word_class u \<and> v \<noteq> [] \<and> list_all word_class v \<longrightarrow>
      is_a_word e (u @ v) \<and> is_a_word e (u @ 45 # v)) \<and>
   \<not> is_a_word e [] \<and>
   (\<not> alpha e c \<and> \<not> word_class c \<longrightarrow> \<not> is_a_word e (c # cs))"
proof (intro conjI impI)
  assume "py_isalpha e s"
  then show "is_a_word e s" by (simp add: is_a_word_def)
next
  assume h: "u \<noteq> [] \<and> list_all word_class u \<and> v \<noteq> [] \<and> list_all word_class v"
  then have "u @ [] @ v \<in> lang word_re"
    unfolding lang_word_re by blast
  then have "re_match word_re ((u @ [] @ v) @ [])"
    unfolding re_match_iff by blast
  then show "is_a_word e (u @ v)" by (simp add: is_a_word_def)
  from h have "u @ [45] @ v \<in> lang word_re"
    unfolding lang_word_re by blast
  then have "re_match word_re ((u @ [45] @ v) @ [])"
    unfolding re_match_iff by blast
  then show "is_a_word e (u @ 45 # v)" by (simp add: is_a_word_def)
next
  show "\<not> is_a_word e []"
    unfolding is_a_word_def py_isalpha_def re_match_word_re_iff by simp
next
  assume "\<not> alpha e c \<and> \<not> word_class c"
  then show "\<not> is_a_word e (c # cs)"
    unfolding is_a_word_def py_isalpha_def re_match_word_re_iff by simp
qed

text \<open>
  The theorem at the Greek word U+03B1 U+03B2, at the Cyrillic runs U+043A U+0430 U+043A
  and U+0442 U+043E (without and with the hyphen), and at the string \<^verbatim>\<open>1ab\<close>.
\<close>

theorem is_a_word_by_design_witness:
  "py_isalpha sample_env [945, 946] \<and> is_a_word sample_env [945, 946] \<and>
   is_a_word sample_env ([1082, 1072, 1082] @ [1090, 1086]) \<and>
   is_a_word sample_env ([1082, 1072, 1082] @ 45 # [1090, 1086]) \<and>
   \<not> is_a_word sample_env [] \<and>
   \<not> alpha sample_env 49 \<and> \<not> word_class 49 \<and> \<not> is_a_word sample_env [49, 97, 98]"
  using is_a_word_by_design
    [of sample_env "[945, 946]" "[1082, 1072, 1082]" "[1090, 1086]" 49 "[97, 98]"]
  by (simp add: py_isalpha_def sample_defs word_class_def)

text \<open>
  Against C2 as stated: the Greek word U+03B1 U+03B2 has no Latin and no Cyrillic letter,
  and \<^verbatim>\<open>is_a_word\<close> accepts it.
\<close>

theorem is_a_word_accepts_greek:
  "is_a_word sample_env [945, 946] \<and> \<not> spec_is_word [945, 946]"
  by (simp add: is_a_word_def py_isalpha_def sample_defs spec_is_word_def spec_letter_def)

text \<open>
  The pattern is matched against a prefix: the answer of \<^verbatim>\<open>is_a_word\<close> on a string that
  is not entirely alphabetic is decided by its first two or three characters, and a
  string with two hyphens is a word in every environment.
\<close>

lemma is_a_word_iff:
  "is_a_word e s \<longleftrightarrow>
     py_isalpha e s \<or>
     (\<exists>c1 c2 rest. s = c1 # c2 # rest \<and> word_class c1 \<and>
        (word_class c2 \<or> (c2 = 45 \<and> (\<exists>c3 rest'. rest = c3 # rest' \<and> word_class c3))))"
  unfolding is_a_word_def re_match_word_re_iff ..

lemma is_a_word_two_hyphens: "is_a_word e (lit ''ab-cd-ef'')"
  by (simp add: is_a_word_def lit_def re_defs)

section \<open>\<^verbatim>\<open>parse_word\<close>\<close>

lemma re_sub_quotes: "re_sub_chars quote_re s = filter (\<lambda>c. c \<noteq> 39 \<and> c \<noteq> 34) s"
  unfolding re_sub_chars_def quote_re_def Chr_def by (rule filter_cong) auto

text \<open>
  C3. On a word that is not a POS tag and is an exact form, \<^verbatim>\<open>parse_word\<close> is to return
  the lowercased word without its enclosing pair of quotes, the quote characters inside
  kept. What the code does: it returns the lowercased word with every single and every
  double quote removed, wherever it stands; when the lowercased word is a quoted text
  with no quote character inside, that is the text between the quotes.
\<close>

theorem parse_word_exact_form:
  assumes "\<not> is_pos_tag word" and "is_exact_form word"
  shows "parse_word e word =
           Inr [(''word_form'', Str (filter (\<lambda>c. c \<noteq> 39 \<and> c \<noteq> 34) (lower e word)))] \<and>
         (lower e word = q # body @ [q] \<and> 34 \<notin> set body \<and> 39 \<notin> set body \<and>
            (q = 34 \<or> q = 39) \<longrightarrow>
          parse_word e word = Inr [(''word_form'', Str body)])"
proof -
  have 1: "parse_word e word =
      Inr [(''word_form'', Str (filter (\<lambda>c. c \<noteq> 39 \<and> c \<noteq> 34) (lower e word)))]"
    using assms by (simp add: parse_word_def re_sub_quotes)
  have "filter (\<lambda>c. c \<noteq> 39 \<and> c \<noteq> 34) (q # body @ [q]) = body"
    if "34 \<notin> set body" "39 \<notin> set body" "q = 34 \<or> q = 39"
  proof -
    from that have "filter (\<lambda>c. c \<noteq> 39 \<and> c \<noteq> 34) body = body"
      by (intro filter_True) auto
    with that show ?thesis by auto
  qed
  with 1 show ?thesis by auto
qed

text \<open>The theorem at \<^verbatim>\<open>'Table'\<close>, which gives the word form \<^verbatim>\<open>table\<close>.\<close>

theorem parse_word_exact_form_witness:
  "\<not> is_pos_tag [39, 84, 97, 98, 108, 101, 39] \<and>
   is_exact_form [39, 84, 97, 98, 108, 101, 39] \<and>
   lower sample_env [39, 84, 97, 98, 108, 101, 39] = 39 # lit ''table'' @ [39] \<and>
   parse_word sample_env [39, 84, 97, 98, 108, 101, 39] =
     Inr [(''word_form'', Str (lit ''table''))]"
proof -
  have a: "\<not> is_pos_tag [39, 84, 97, 98, 108, 101, 39]"
    by (simp add: is_pos_tag_def possible_pos_tags_def lit_def)
  have b: "is_exact_form [39, 84, 97, 98, 108, 101, 39]"
    by (simp add: is_exact_form_def re_defs)
  have c: "lower sample_env [39, 84, 97, 98, 108, 101, 39] = 39 # lit ''table'' @ [39]"
    by (simp add: sample_defs lit_def)
  from parse_word_exact_form [OF a b, of sample_env 39 "lit ''table''"] a b c show ?thesis
    by (simp add: lit_def)
qed

text \<open>
  Against C3 as stated: on \<^verbatim>\<open>"a'b"\<close> the word form returned is \<^verbatim>\<open>ab\<close>; the text between
  the enclosing quotes is \<^verbatim>\<open>a'b\<close>.
\<close>

theorem parse_word_strips_interior_quotes:
  "\<not> is_pos_tag [34, 97, 39, 98, 34] \<and> is_exact_form [34, 97, 39, 98, 34] \<and>
   parse_word sample_env [34, 97, 39, 98, 34] = Inr [(''word_form'', Str [97, 98])] \<and>
   spec_word_form sample_env [34, 97, 39, 98, 34] = [97, 39, 98]"
  by (simp add: parse_word_def is_pos_tag_def possible_pos_tags_def lit_def is_exact_form_def
      re_defs re_sub_chars_def sample_defs spec_word_form_def)





section \<open>\<^verbatim>\<open>parse_single_part\<close>\<close>

text \<open>
  C5. On a segment \<^verbatim>\<open>a+b\<close> that passes the check, the \<^verbatim>\<open>pos\<close> of the result is to be
  \<open>b\<close>. On \<^verbatim>\<open>NOUN+VERB\<close> the check passes, since \<^verbatim>\<open>NOUN\<close> is alphabetic, and
  \<^verbatim>\<open>parse_word\<close> then reads \<^verbatim>\<open>NOUN\<close> as a POS tag: its \<^verbatim>\<open>pos\<close> replaces the one set from
  \<open>b\<close>, and the result is \<^verbatim>\<open>{'pos': 'NOUN'}\<close> in every environment.
\<close>

theorem parse_single_part_pos_overwritten:
  "parse_single_part e (lit ''NOUN+VERB'') = Inr [(''pos'', Str (lit ''NOUN''))]"
  by (simp add: parse_single_part_def py_split_sep_def parse_word_def is_pos_tag_def
      possible_pos_tags_def lit_def is_a_word_def re_defs)

text \<open>
  When the first part is not itself a POS tag the \<^verbatim>\<open>pos\<close> of the result is the second
  part: a segment with no plus is parsed as a word; a segment \<^verbatim>\<open>a+b\<close> fails the check
  with InvalidCombinationError or gives \<^verbatim>\<open>pos\<close>, which is \<open>b\<close>, and then the entry of
  \<open>a\<close>.
\<close>

lemma split_on_no_sep: "sep \<notin> set b \<Longrightarrow> split_on sep cur b = [rev cur @ b]"
  by (induction b arbitrary: cur) auto

lemma split_on_one_sep:
  "sep \<notin> set a \<Longrightarrow> sep \<notin> set b \<Longrightarrow> split_on sep cur (a @ sep # b) = [rev cur @ a, b]"
  by (induction a arbitrary: cur) (auto simp: split_on_no_sep)

lemma parse_word_cases:
  "parse_word e w = Inr d \<Longrightarrow>
     d = [(''pos'', Str w)] \<and> is_pos_tag w \<or>
     (\<exists>v. d = [(''word_form'', Str v)]) \<and> \<not> is_pos_tag w \<or>
     (\<exists>L. d = [(''lemma'', StrList L)]) \<and> \<not> is_pos_tag w"
  by (auto simp: parse_word_def Let_def split: if_splits)

lemma parse_word_total:
  "is_a_word e a \<or> is_exact_form a \<Longrightarrow> \<exists>d. parse_word e a = Inr d"
  by (auto simp: parse_word_def Let_def)

lemma parse_single_part_no_plus:
  "43 \<notin> set part \<Longrightarrow> parse_single_part e part = parse_word e part"
  by (auto simp: parse_single_part_def split: sum.splits dest!: parse_word_cases)

lemma parse_single_part_plus:
  assumes "43 \<notin> set a" and "43 \<notin> set b"
  shows "parse_single_part e (a @ 43 # b) =
     (if (is_a_word e a \<or> is_exact_form a) \<and> is_pos_tag b then
        (case parse_word e a of
           Inl err \<Rightarrow> Inl err
         | Inr d \<Rightarrow> Inr (dict_update [(''pos'', Str b)] d))
      else Inl InvalidCombinationError)"
  using assms
  by (simp add: parse_single_part_def py_split_sep_def split_on_one_sep)

lemma parse_single_part_plus_ok:
  assumes "43 \<notin> set a" and "43 \<notin> set b"
    and "is_a_word e a \<or> is_exact_form a" and "is_pos_tag b" and "\<not> is_pos_tag a"
  shows "\<exists>k v. parse_word e a = Inr [(k, v)] \<and> k \<noteq> ''pos'' \<and>
           parse_single_part e (a @ 43 # b) = Inr [(''pos'', Str b), (k, v)]"
proof -
  from assms(3) obtain d where d: "parse_word e a = Inr d"
    using parse_word_total by blast
  from parse_word_cases [OF d] assms(5) obtain k v where "d = [(k, v)]" "k \<noteq> ''pos''"
    by auto
  with d assms show ?thesis
    by (simp add: parse_single_part_plus)
qed

text \<open>
  The shape of a requirement object: one entry, or the entry \<^verbatim>\<open>pos\<close> and one more.
\<close>

lemma parse_single_part_shape:
  assumes "parse_single_part e part = Inr d"
  shows "\<exists>k v. (d = [(k, v)] \<or> (\<exists>p. d = [(''pos'', p), (k, v)])) \<and>
           k \<in> {''pos'', ''lemma'', ''word_form''}"
proof (cases "43 \<in> set part")
  case False
  with assms have "parse_word e part = Inr d"
    by (simp add: parse_single_part_no_plus)
  from parse_word_cases [OF this] show ?thesis by auto
next
  case True
  with assms obtain a b d' where d': "parse_word e a = Inr d'"
    and d: "d = dict_update [(''pos'', Str b)] d'"
    by (auto simp: parse_single_part_def Let_def split: if_splits list.splits sum.splits)
  from parse_word_cases [OF d'] d show ?thesis by auto
qed

lemma parse_single_part_valid:
  "parse_single_part e part = Inr d \<Longrightarrow> valid_requirement d"
  by (drule parse_single_part_shape) (auto simp: valid_requirement_def dict_keys_def)

section \<open>\<^verbatim>\<open>request_to_trigram\<close>\<close>



lemma dict_set_fresh: "k \<notin> fst ` set d \<Longrightarrow> dict_set d k v = d @ [(k, v)]"
  by (induction d) auto

lemma upto_Suc_len: "[i + 1..i + int (Suc n)] = (i + 1) # [i + 1 + 1..i + 1 + int n]"
proof -
  have "i + int (Suc n) = i + 1 + int n"
    by simp
  then have "[i + 1..i + int (Suc n)] = [i + 1..i + 1 + int n]"
    by (simp only:)
  also have "\<dots> = (i + 1) # [i + 1 + 1..i + 1 + int n]"
    by (rule upto_rec1) simp
  finally show ?thesis .
qed

lemma parse_parts_Inr_iff:
  "\<forall>k \<in> fst ` set reqs. k \<le> i \<Longrightarrow>
   parse_parts e i parts reqs = Inr m \<longleftrightarrow>
     (\<exists>vs. map (parse_single_part e) parts = map Inr vs \<and>
        m = reqs @ zip [i + 1..i + int (length parts)] vs)"
proof (induction parts arbitrary: i reqs)
  case Nil
  then show ?case by auto
next
  case (Cons p ps)
  show ?case
  proof (cases "parse_single_part e p")
    case (Inl err)
    then show ?thesis by (auto simp: map_eq_Cons_conv)
  next
    case (Inr r)
    from Cons.prems have fresh: "i + 1 \<notin> fst ` set reqs" by force
    have keys: "\<forall>k \<in> fst ` set (reqs @ [(i + 1, r)]). k \<le> i + 1"
      using Cons.prems by force
    have "length (p # ps) = Suc (length ps)"
      by simp
    then have upto:
      "[i + 1..i + int (length (p # ps))] = (i + 1) # [i + 1 + 1..i + 1 + int (length ps)]"
      by (simp only: upto_Suc_len)
    have "parse_parts e i (p # ps) reqs = parse_parts e (i + 1) ps (reqs @ [(i + 1, r)])"
      using Inr fresh by (simp add: dict_set_fresh)
    also have "\<dots> = Inr m \<longleftrightarrow>
        (\<exists>vs. map (parse_single_part e) ps = map Inr vs \<and>
           m = (reqs @ [(i + 1, r)]) @ zip [i + 1 + 1..i + 1 + int (length ps)] vs)"
      by (rule Cons.IH [OF keys])
    also have "\<dots> \<longleftrightarrow>
        (\<exists>vs. map (parse_single_part e) (p # ps) = map Inr vs \<and>
           m = reqs @ zip [i + 1..i + int (length (p # ps))] vs)"
      unfolding upto using Inr by (auto simp: map_eq_Cons_conv Cons_eq_map_conv)
    finally show ?thesis .
  qed
qed


text \<open>A request of two segments, with whitespace around them.\<close>

lemma request_example:
  "request_to_trigram sample_env (lit ''  walk+VERB  left '') =
     Inr [(1, [(''pos'', Str (lit ''VERB'')), (''lemma'', StrList [lit ''walk''])]),
          (2, [(''lemma'', StrList [lit ''leave'', lit ''left''])])]"
  by (simp add: request_to_trigram_def search_parts_def py_split_def py_strip_def
      parse_single_part_def py_split_sep_def parse_word_def is_pos_tag_def
      possible_pos_tags_def lit_def is_a_word_def is_exact_form_def py_isalpha_def
      py_list_set_def re_defs sample_defs)

text \<open>
  C10. Every requirement object returned by \<^verbatim>\<open>parse_single_part\<close>, and every value in
  the map returned by \<^verbatim>\<open>request_to_trigram\<close>, has its keys among \<^verbatim>\<open>pos\<close>, \<^verbatim>\<open>lemma\<close> and
  \<^verbatim>\<open>word_form\<close> and does not have both \<^verbatim>\<open>lemma\<close> and \<^verbatim>\<open>word_form\<close>.
\<close>

theorem requirement_keys:
  "(parse_single_part e part = Inr d \<longrightarrow> valid_requirement d) \<and>
   (request_to_trigram e request = Inr m \<and> (i, d') \<in> set m \<longrightarrow> valid_requirement d')"
proof (intro conjI impI)
  assume "parse_single_part e part = Inr d"
  then show "valid_requirement d" by (rule parse_single_part_valid)
next
  assume h: "request_to_trigram e request = Inr m \<and> (i, d') \<in> set m"
  then have "parse_parts e 0 (search_parts e request) [] = Inr m"
    by (auto simp: request_to_trigram_def Let_def split: if_splits)
  then obtain vs where vs: "map (parse_single_part e) (search_parts e request) = map Inr vs"
    and m: "m = zip [1..int (length (search_parts e request))] vs"
    using parse_parts_Inr_iff [of "[]" 0 e "search_parts e request" m] by auto
  from h m have "d' \<in> set vs"
    by (auto dest: set_zip_rightD)
  then have "Inr d' \<in> set (map (parse_single_part e) (search_parts e request))"
    using vs by simp
  then obtain p where "parse_single_part e p = Inr d'"
    by auto
  then show "valid_requirement d'" by (rule parse_single_part_valid)
qed


text \<open>
  The theorem at the segment \<^verbatim>\<open>"run"+VERB\<close> and at the second position of the request
  \<^verbatim>\<open>walk+VERB left\<close>.
\<close>

theorem requirement_keys_witness:
  "parse_single_part sample_env ([34] @ lit ''run'' @ [34, 43] @ lit ''VERB'') =
     Inr [(''pos'', Str (lit ''VERB'')), (''word_form'', Str (lit ''run''))] \<and>
   valid_requirement [(''pos'', Str (lit ''VERB'')), (''word_form'', Str (lit ''run''))] \<and>
   request_to_trigram sample_env (lit ''walk+VERB left'') =
     Inr [(1, [(''pos'', Str (lit ''VERB'')), (''lemma'', StrList [lit ''walk''])]),
          (2, [(''lemma'', StrList [lit ''leave'', lit ''left''])])] \<and>
   valid_requirement [(''lemma'', StrList [lit ''leave'', lit ''left''])]"
proof -
  have a: "parse_single_part sample_env ([34] @ lit ''run'' @ [34, 43] @ lit ''VERB'') =
     Inr [(''pos'', Str (lit ''VERB'')), (''word_form'', Str (lit ''run''))]"
    by (simp add: parse_single_part_def py_split_sep_def parse_word_def is_pos_tag_def
        possible_pos_tags_def lit_def is_a_word_def is_exact_form_def py_isalpha_def
        re_defs re_sub_chars_def sample_defs)
  have b: "request_to_trigram sample_env (lit ''walk+VERB left'') =
     Inr [(1, [(''pos'', Str (lit ''VERB'')), (''lemma'', StrList [lit ''walk''])]),
          (2, [(''lemma'', StrList [lit ''leave'', lit ''left''])])]"
    by (simp add: request_to_trigram_def search_parts_def py_split_def py_strip_def
        parse_single_part_def py_split_sep_def parse_word_def is_pos_tag_def
        possible_pos_tags_def lit_def is_a_word_def is_exact_form_def py_isalpha_def
        py_list_set_def re_defs sample_defs)
  from requirement_keys
    [of sample_env "[34] @ lit ''run'' @ [34, 43] @ lit ''VERB''"
      "[(''pos'', Str (lit ''VERB'')), (''word_form'', Str (lit ''run''))]"
      "lit ''walk+VERB left''"
      "[(1, [(''pos'', Str (lit ''VERB'')), (''lemma'', StrList [lit ''walk''])]),
        (2, [(''lemma'', StrList [lit ''leave'', lit ''left''])])]"
      2 "[(''lemma'', StrList [lit ''leave'', lit ''left''])]"]
    a b
  show ?thesis by simp
qed

section \<open>Tokens and trigrams\<close>

lemma py_eq_None_right: "py_eq x None = Inr (x = None)"
  by (cases x) (simp_all add: Token_eq_def slot_val_def)

lemma py_eq_None_left: "py_eq None y = Inr (y = None)"
  by (cases y) (simp_all add: Token_eq_def)

lemma all_None_iff: "all_None (t0, t1, t2) = Inr (t0 = None \<and> t1 = None \<and> t2 = None)"
proof (cases t0)
  case None
  then show ?thesis
    by (cases t1) (auto simp: all_None_def py_eq_None_left py_eq_None_right Token_eq_def slot_val_def)
next
  case (Some a)
  then show ?thesis
    by (cases t1; cases t2)
       (auto simp: all_None_def py_eq_None_right Token_eq_def slot_val_def)
qed

lemma first_not_none_loop_0:
  "first_not_none_loop (t0, t1, t2) 0 =
     (if t0 \<noteq> None then Inr 0 else if t1 \<noteq> None then Inr 1
      else if t2 \<noteq> None then Inr 2 else Inl IndexError)"
  by (simp add: slot_get_def py_eq_None_right)

lemma last_not_none_loop_2:
  "last_not_none_loop (t0, t1, t2) 2 =
     (if t2 \<noteq> None then Inr 2 else if t1 \<noteq> None then Inr 1
      else if t0 \<noteq> None then Inr 0 else Inl IndexError)"
  by (simp add: slot_get_def py_eq_None_right)

lemma Trigram_init_eq:
  "Trigram_init tr =
     (case (first_present tr, last_present tr) of
        (Some f, Some l) \<Rightarrow>
          Inr \<lparr>trigram = tr, span = (fst (text_position f), snd (text_position l))\<rparr>
      | _ \<Rightarrow> Inl InvalidTrigramError)"
proof -
  obtain t0 t1 t2 where tr: "tr = (t0, t1, t2)"
    by (cases tr)
  show ?thesis
    unfolding tr Trigram_init_def all_None_iff first_not_none_loop_0 last_not_none_loop_2
    by (cases t0; cases t1; cases t2) (simp_all add: slot_position_def slot_get_def)
qed

text \<open>
  C7. Constructing a Trigram fails with InvalidTrigramError exactly when the three
  slots are absent, and it succeeds whenever one slot is present: no comparison of the
  constructor raises, and neither scan leaves the tuple.
\<close>

theorem Trigram_init_fails_iff_all_absent:
  "(Trigram_init tr = Inl InvalidTrigramError \<longleftrightarrow> tr = (None, None, None)) \<and>
   ((\<exists>T. Trigram_init tr = Inr T) \<longleftrightarrow> tr \<noteq> (None, None, None))"
proof -
  obtain t0 t1 t2 where tr: "tr = (t0, t1, t2)"
    by (cases tr)
  show ?thesis
    unfolding tr Trigram_init_eq by (cases t0; cases t1; cases t2) simp_all
qed

text \<open>
  C8. The span of a constructed Trigram is the start of the first present slot, scanning
  from slot 0, and the end of the last present slot, scanning from slot 2; a Trigram
  with the middle slot alone has the span of that slot.
\<close>

theorem Trigram_init_span:
  "(tr \<noteq> (None, None, None) \<longrightarrow>
      (\<exists>T f l. Trigram_init tr = Inr T \<and> trigram T = tr \<and>
         first_present tr = Some f \<and> last_present tr = Some l \<and>
         span T = (fst (text_position f), snd (text_position l)))) \<and>
   (\<exists>T. Trigram_init (None, Some t, None) = Inr T \<and> span T = text_position t)"
proof -
  obtain t0 t1 t2 where tr: "tr = (t0, t1, t2)"
    by (cases tr)
  show ?thesis
    unfolding tr Trigram_init_eq by (cases t0; cases t1; cases t2) simp_all
qed

text \<open>The theorem at a trigram whose middle slot is absent, and at a middle slot alone.\<close>

theorem Trigram_init_span_witness:
  "(Some tokA, None, Some tokB) \<noteq> (None, None, None) \<and>
   (\<exists>T. Trigram_init (Some tokA, None, Some tokB) = Inr T \<and>
      trigram T = (Some tokA, None, Some tokB) \<and> span T = (0, 9)) \<and>
   (\<exists>T. Trigram_init (None, Some tokB, None) = Inr T \<and> span T = (6, 9))"
  using Trigram_init_span [of "(Some tokA, None, Some tokB)" tokB]
  by (auto simp: tokA_def tokB_def)

text \<open>
  C9. Two Tokens are equal exactly when wordform, lemma, POS tag and text span agree,
  whatever their sentence index; a Token compared with None is not equal, without an
  error; compared with a value that is neither None nor a Token, the comparison fails
  with the type-mismatch error, and only then.
\<close>

theorem Token_eq_fields:
  "Token_eq t1 (PToken t2) =
     Inr (wordform t1 = wordform t2 \<and> lemma_id t1 = lemma_id t2 \<and>
          pos_tag t1 = pos_tag t2 \<and> text_position t1 = text_position t2) \<and>
   Token_eq (t1\<lparr>sentence := n\<rparr>) (PToken (t2\<lparr>sentence := k\<rparr>)) = Token_eq t1 (PToken t2) \<and>
   Token_eq t1 PNone = Inr False \<and>
   (Token_eq t1 v = Inl TypeMismatchError \<longleftrightarrow> v \<noteq> PNone \<and> (\<forall>t. v \<noteq> PToken t))"
  by (cases v) (simp_all add: Token_eq_def)

lemma Token_eq_example: "Token_eq tokA (PToken (tokA\<lparr>sentence := 3\<rparr>)) = Inr True \<and> Token_eq tokA (PToken tokB) = Inr False
  \<and> Token_eq tokA (PInt 3) = Inl TypeMismatchError"
  by (simp add: Token_eq_def tokA_def tokB_def)

end
